theory Spec2Isabelle
  imports Complex_Main "HOL-Library.AList"
begin

section \<open>The gate-model library as the notebooks use it\<close>

text \<open>
  The notebooks build circuits by calling methods of the SDK's circuit object and read the
  result back as a statevector. A circuit is a register size together with the list of
  gates appended so far; every gate method appends one instruction. The gate classes are
  named as the SDK prints them in the notebook outputs (\<open>HGate\<close>, \<open>XGate\<close>, \<open>CzGate\<close>,
  \<open>Cu3Gate\<close>, ...). Qubit \<open>q[k]\<close> of a register is the index \<open>k\<close>.
\<close>

datatype gate =
    HGate nat
  | XGate nat
  | CnotGate nat nat
  | CzGate nat nat
  | SwapGate nat nat
  | Cu1Gate real nat nat
  | Cu3Gate real real real nat nat

record circuit =
  n_qubits :: nat
  n_clbits :: nat
  instructions :: "gate list"

definition QuantumCircuit :: "nat \<Rightarrow> nat \<Rightarrow> circuit" where
  "QuantumCircuit q c = \<lparr>n_qubits = q, n_clbits = c, instructions = []\<rparr>"

definition append_gate :: "gate \<Rightarrow> circuit \<Rightarrow> circuit" where
  "append_gate g circ = circ\<lparr>instructions := instructions circ @ [g]\<rparr>"

definition qc_h :: "nat \<Rightarrow> circuit \<Rightarrow> circuit" where
  "qc_h k = append_gate (HGate k)"

definition qc_x :: "nat \<Rightarrow> circuit \<Rightarrow> circuit" where
  "qc_x k = append_gate (XGate k)"

definition qc_cx :: "nat \<Rightarrow> nat \<Rightarrow> circuit \<Rightarrow> circuit" where
  "qc_cx c t = append_gate (CnotGate c t)"

definition qc_cz :: "nat \<Rightarrow> nat \<Rightarrow> circuit \<Rightarrow> circuit" where
  "qc_cz c t = append_gate (CzGate c t)"

definition qc_swap :: "nat \<Rightarrow> nat \<Rightarrow> circuit \<Rightarrow> circuit" where
  "qc_swap a b = append_gate (SwapGate a b)"

definition qc_cu1 :: "real \<Rightarrow> nat \<Rightarrow> nat \<Rightarrow> circuit \<Rightarrow> circuit" where
  "qc_cu1 lam c t = append_gate (Cu1Gate lam c t)"

definition qc_cu3 :: "real \<Rightarrow> real \<Rightarrow> real \<Rightarrow> nat \<Rightarrow> nat \<Rightarrow> circuit \<Rightarrow> circuit" where
  "qc_cu3 theta phi lam c t = append_gate (Cu3Gate theta phi lam c t)"

definition gate_qubits :: "gate \<Rightarrow> nat list" where
  "gate_qubits g =
     (case g of
        HGate k \<Rightarrow> [k]
      | XGate k \<Rightarrow> [k]
      | CnotGate c t \<Rightarrow> [c, t]
      | CzGate c t \<Rightarrow> [c, t]
      | SwapGate a b \<Rightarrow> [a, b]
      | Cu1Gate lam c t \<Rightarrow> [c, t]
      | Cu3Gate theta phi lam c t \<Rightarrow> [c, t])"

subsection \<open>The statevector simulator\<close>

text \<open>
  A statevector over \<open>n\<close> qubits is the list of its \<open>2 ^ n\<close> complex amplitudes; the
  amplitude at index \<open>i\<close> belongs to the basis state in which qubit \<open>k\<close> carries bit \<open>k\<close> of
  \<open>i\<close> (qubit 0 is the least significant bit, the SDK's convention, which the expected
  vectors of the grading cells follow). The matrices are those of the gate table and of
  the \<open>u3\<close> formula in the circuits notebook: \<open>X = [[0, 1], [1, 0]]\<close>,
  \<open>Z = [[1, 0], [0, -1]]\<close>, \<open>H = 1/sqrt 2 * [[1, 1], [1, -1]]\<close>,
  \<open>u3(theta, phi, lam) = [[cos(theta/2), -e^(i lam) sin(theta/2)],
  [e^(i phi) sin(theta/2), e^(i lam + i phi) cos(theta/2)]]\<close>; \<open>u1(lam)\<close> is the phase
  gate \<open>[[1, 0], [0, e^(i lam)]]\<close>. Amplitudes are exact complex numbers: the rounding of
  the simulator's floating-point arithmetic is not part of the model, and \<open>np.pi\<close> is
  \<open>pi\<close>.
\<close>

type_synonym statevector = "complex list"

definition bit_set :: "nat \<Rightarrow> nat \<Rightarrow> bool" where
  "bit_set i k = odd (i div 2 ^ k)"

text \<open>
  \<open>apply_u a b c d k psi i\<close> is amplitude \<open>i\<close> after the one-qubit matrix
  \<open>[[a, b], [c, d]]\<close> has acted on qubit \<open>k\<close> of \<open>psi\<close>.
\<close>

definition apply_u ::
  "complex \<Rightarrow> complex \<Rightarrow> complex \<Rightarrow> complex \<Rightarrow> nat \<Rightarrow> statevector \<Rightarrow> nat \<Rightarrow> complex" where
  "apply_u a b c d k psi i =
     (if bit_set i k then c * psi ! (i - 2 ^ k) + d * psi ! i
      else a * psi ! i + b * psi ! (i + 2 ^ k))"

definition swap_bits :: "nat \<Rightarrow> nat \<Rightarrow> nat \<Rightarrow> nat" where
  "swap_bits a b i =
     (if bit_set i a = bit_set i b then i
      else if bit_set i a then i - 2 ^ a + 2 ^ b
      else i + 2 ^ a - 2 ^ b)"

definition inv_sqrt2 :: complex where
  "inv_sqrt2 = complex_of_real (1 / sqrt 2)"

fun gate_amp :: "gate \<Rightarrow> statevector \<Rightarrow> nat \<Rightarrow> complex" where
  "gate_amp (HGate k) psi i = apply_u inv_sqrt2 inv_sqrt2 inv_sqrt2 (- inv_sqrt2) k psi i"
| "gate_amp (XGate k) psi i = apply_u 0 1 1 0 k psi i"
| "gate_amp (CnotGate c t) psi i = (if bit_set i c then apply_u 0 1 1 0 t psi i else psi ! i)"
| "gate_amp (CzGate c t) psi i = (if bit_set i c then apply_u 1 0 0 (- 1) t psi i else psi ! i)"
| "gate_amp (SwapGate a b) psi i = psi ! swap_bits a b i"
| "gate_amp (Cu1Gate lam c t) psi i =
     (if bit_set i c then apply_u 1 0 0 (cis lam) t psi i else psi ! i)"
| "gate_amp (Cu3Gate theta phi lam c t) psi i =
     (if bit_set i c
      then apply_u (complex_of_real (cos (theta / 2)))
                   (- (cis lam * complex_of_real (sin (theta / 2))))
                   (cis phi * complex_of_real (sin (theta / 2)))
                   (cis (lam + phi) * complex_of_real (cos (theta / 2))) t psi i
      else psi ! i)"

definition apply_gate :: "gate \<Rightarrow> statevector \<Rightarrow> statevector" where
  "apply_gate g psi = map (gate_amp g psi) [0..<length psi]"

definition zero_state :: "nat \<Rightarrow> statevector" where
  "zero_state n = 1 # replicate (2 ^ n - 1) 0"

definition run_circuit :: "circuit \<Rightarrow> statevector \<Rightarrow> statevector" where
  "run_circuit circ psi = fold apply_gate (instructions circ) psi"

definition get_statevector :: "circuit \<Rightarrow> statevector" where
  "get_statevector circ = run_circuit circ (zero_state (n_qubits circ))"

text \<open>
  Measuring every qubit into the classical bit of the same index gives outcome \<open>i\<close> with
  probability \<open>|psi ! i|^2\<close>; the counts dictionary names an outcome by its bits, highest
  qubit first.
\<close>

definition probabilities :: "statevector \<Rightarrow> real list" where
  "probabilities psi = map (\<lambda>a. (cmod a)\<^sup>2) psi"

definition bitstring :: "nat \<Rightarrow> nat \<Rightarrow> string" where
  "bitstring n i = map (\<lambda>k. if bit_set i k then CHR ''1'' else CHR ''0'') (rev [0..<n])"

definition possible_outcomes :: "circuit \<Rightarrow> string list" where
  "possible_outcomes circ =
     map (bitstring (n_qubits circ))
       (filter (\<lambda>i. probabilities (get_statevector circ) ! i \<noteq> 0) [0..<2 ^ n_qubits circ])"

section \<open>The circuits notebook: the Bell pair\<close>

text \<open>
  \<^verbatim>\<open>q = QuantumRegister(2); c = ClassicalRegister(2); circuit = QuantumCircuit(q, c)\<close>,
  \<^verbatim>\<open>circuit.h(q[0]); circuit.cx(q[0], q[1])\<close>.
\<close>

definition bell_circuit :: circuit where
  "bell_circuit =
     (let circuit = QuantumCircuit 2 2;
          circuit = qc_h 0 circuit;
          circuit = qc_cx 0 1 circuit
      in circuit)"

section \<open>Notebook cells and the notebook runner\<close>

text \<open>
  A code cell transforms the notebook's namespace or raises; the runner executes the cells
  top to bottom and stops at the first exception, which is then its result.
\<close>

datatype error = NameError | AssertionError | LibraryError string

fun run_cells :: "('s \<Rightarrow> error + 's) list \<Rightarrow> 's \<Rightarrow> error + 's" where
  "run_cells [] s = Inr s"
| "run_cells (cell # cells) s =
     (case cell s of Inl e \<Rightarrow> Inl e | Inr s' \<Rightarrow> run_cells cells s')"

section \<open>The matrix-inversion notebook\<close>

text \<open>
  \<open>np.allclose(a, b)\<close> with its default tolerances \<open>rtol = 1e-05\<close> and \<open>atol = 1e-08\<close>, for
  two vectors of the same length (as all vectors compared here are):
  \<open>|a - b| \<le> atol + rtol * |b|\<close> holds elementwise.
\<close>

definition rtol :: real where
  "rtol = 1 / 100000"

definition atol :: real where
  "atol = 1 / 100000000"

definition isclose :: "complex \<Rightarrow> complex \<Rightarrow> bool" where
  "isclose a b = (cmod (a - b) \<le> atol + rtol * cmod b)"

definition allclose :: "statevector \<Rightarrow> statevector \<Rightarrow> bool" where
  "allclose a b = list_all2 isclose a b"

text \<open>
  Modelled from the spec: \<open>get_amplitudes\<close> is defined in \<open>assignment_helper.py\<close>, which is
  not among the sources; the grading cells compare its output vector with a hardcoded one.
  It is taken to return the statevector of the circuit run on the statevector simulator
  from the all-zero state, as the notebooks' own
  \<open>execute(circuit, backend_statevector).result().get_statevector(circuit)\<close> does.
\<close>

definition get_amplitudes :: "circuit \<Rightarrow> statevector" where
  "get_amplitudes circ = get_statevector circ"

text \<open>The solution cells of Exercises 1 to 5, as the gate calls they make on \<open>hhl\<close>.\<close>

definition exercise1_solution :: circuit where
  "exercise1_solution =
     (let hhl = QuantumCircuit 4 4;
          hhl = qc_h 1 hhl;
          hhl = qc_h 2 hhl;
          hhl = qc_x 3 hhl
      in hhl)"

definition exercise2_solution :: "circuit \<Rightarrow> circuit" where
  "exercise2_solution hhl = qc_cz 2 3 hhl"

definition exercise3_solution :: "circuit \<Rightarrow> circuit" where
  "exercise3_solution hhl =
     (let hhl = qc_swap 1 2 hhl;
          hhl = qc_h 2 hhl;
          hhl = qc_cu1 (- pi / 2) 1 2 hhl;
          hhl = qc_h 1 hhl
      in hhl)"

definition exercise4_solution :: "circuit \<Rightarrow> circuit" where
  "exercise4_solution hhl =
     (let hhl = qc_swap 1 2 hhl;
          hhl = qc_cu3 0.392699 0 0 1 0 hhl;
          hhl = qc_cu3 0.19634955 0 0 2 0 hhl
      in hhl)"

definition exercise5_solution :: "circuit \<Rightarrow> circuit" where
  "exercise5_solution hhl =
     (let hhl = qc_swap 1 2 hhl;
          hhl = qc_h 1 hhl;
          hhl = qc_cu1 (pi / 2) 1 2 hhl;
          hhl = qc_h 2 hhl;
          hhl = qc_swap 1 2 hhl;
          hhl = qc_cz 2 3 hhl;
          hhl = qc_h 1 hhl;
          hhl = qc_h 2 hhl
      in hhl)"

text \<open>The vectors the grading cells compare against, as written there.\<close>

definition exercise1_expected :: statevector where
  "exercise1_expected =
     [Complex 0 0, Complex 0 0, Complex 0 0, Complex 0 0,
      Complex 0 0, Complex 0 0, Complex 0 0, Complex 0 0,
      Complex 0.5 0, Complex 0 0, Complex 0.5 0, Complex 0 0,
      Complex 0.5 0, Complex 0 0, Complex 0.5 0, Complex 0 0]"

definition exercise2_expected :: statevector where
  "exercise2_expected =
     [Complex 0 0, Complex 0 0, Complex 0 0, Complex 0 0,
      Complex 0 0, Complex 0 0, Complex 0 0, Complex 0 0,
      Complex 0.5 0, Complex 0 0, Complex 0.5 0, Complex 0 0,
      Complex (- 0.5) 0, Complex 0 0, Complex (- 0.5) 0, Complex 0 0]"

definition exercise3_expected :: statevector where
  "exercise3_expected =
     [Complex 0 0, Complex 0 0, Complex 0 0, Complex 0 0,
      Complex 0 0, Complex 0 0, Complex 0 0, Complex 0 0,
      Complex 0 0, Complex 0 0, Complex 1 0, Complex 0 0,
      Complex 0 0, Complex 0 0, Complex 0 0, Complex 0 0]"

definition exercise4_expected :: statevector where
  "exercise4_expected =
     [Complex 0 0, Complex 0 0, Complex 0 0, Complex 0 0,
      Complex 0 0, Complex 0 0, Complex 0 0, Complex 0 0,
      Complex 0 0, Complex 0 0, Complex 0 0, Complex 0 0,
      Complex 0.99518473 0, Complex 0.09801714 0, Complex 0 0, Complex 0 0]"

definition exercise5_expected :: statevector where
  "exercise5_expected =
     [Complex 0 0, Complex 0 0, Complex 0 0, Complex 0 0,
      Complex 0 0, Complex 0 0, Complex 0 0, Complex 0 0,
      Complex 0.99518473 0, Complex 0.09801714 0, Complex 0 0, Complex 0 0,
      Complex 0 0, Complex 0 0, Complex 0 0, Complex 0 0]"

text \<open>
  The namespace holds the two variables the cells share. A cell that reads a variable no
  earlier cell has bound raises \<open>NameError\<close>; a grading cell binds \<open>amplitudes\<close> and raises
  \<open>AssertionError\<close> when its \<open>assert np.allclose(...)\<close> fails.
\<close>

record hhl_namespace =
  ns_hhl :: "circuit option"
  ns_amplitudes :: "statevector option"

definition fresh_namespace :: hhl_namespace where
  "fresh_namespace = \<lparr>ns_hhl = None, ns_amplitudes = None\<rparr>"

definition exercise1_cell :: "hhl_namespace \<Rightarrow> error + hhl_namespace" where
  "exercise1_cell ns = Inr (ns\<lparr>ns_hhl := Some exercise1_solution\<rparr>)"

definition solution_cell :: "(circuit \<Rightarrow> circuit) \<Rightarrow> hhl_namespace \<Rightarrow> error + hhl_namespace" where
  "solution_cell gates ns =
     (case ns_hhl ns of
        None \<Rightarrow> Inl NameError
      | Some hhl \<Rightarrow> Inr (ns\<lparr>ns_hhl := Some (gates hhl)\<rparr>))"

definition grading_cell :: "statevector \<Rightarrow> hhl_namespace \<Rightarrow> error + hhl_namespace" where
  "grading_cell expected ns =
     (case ns_hhl ns of
        None \<Rightarrow> Inl NameError
      | Some hhl \<Rightarrow>
          (let amplitudes = get_amplitudes hhl
           in if allclose amplitudes expected
              then Inr (ns\<lparr>ns_amplitudes := Some amplitudes\<rparr>)
              else Inl AssertionError))"

definition show_amplitudes_cell :: "hhl_namespace \<Rightarrow> error + hhl_namespace" where
  "show_amplitudes_cell ns =
     (case ns_amplitudes ns of None \<Rightarrow> Inl NameError | Some amplitudes \<Rightarrow> Inr ns)"

text \<open>
  The cells of the notebook from Exercise 1 to the grading cell of Exercise 5, in the order
  they appear. (The first cell only loads the helper module; the cell after the last
  grading cell samples measurements.)
\<close>

definition matrix_inversion_notebook :: "(hhl_namespace \<Rightarrow> error + hhl_namespace) list" where
  "matrix_inversion_notebook =
     [exercise1_cell, grading_cell exercise1_expected,
      solution_cell exercise2_solution, grading_cell exercise2_expected,
      solution_cell exercise3_solution, grading_cell exercise3_expected,
      solution_cell exercise4_solution, grading_cell exercise4_expected,
      solution_cell exercise5_solution, show_amplitudes_cell, grading_cell exercise5_expected]"

text \<open>The circuit bound to \<open>hhl\<close> after the solution cell of each exercise.\<close>

definition hhl_after_exercise1 :: circuit where
  "hhl_after_exercise1 = exercise1_solution"

definition hhl_after_exercise2 :: circuit where
  "hhl_after_exercise2 = exercise2_solution hhl_after_exercise1"

definition hhl_after_exercise3 :: circuit where
  "hhl_after_exercise3 = exercise3_solution hhl_after_exercise2"

definition hhl_after_exercise4 :: circuit where
  "hhl_after_exercise4 = exercise4_solution hhl_after_exercise3"

definition hhl_after_exercise5 :: circuit where
  "hhl_after_exercise5 = exercise5_solution hhl_after_exercise4"

section \<open>The clustering notebook\<close>

text \<open>
  The dataset is drawn at random: \<open>class_1\<close> and \<open>class_2\<close> are arrays of
  \<open>n_instances // 2\<close> points each, and \<open>data\<close> is their concatenation. The model takes
  the two arrays as parameters; numbers are exact reals.
\<close>

definition n_instances :: nat where
  "n_instances = 4"

definition concatenate :: "real list list \<Rightarrow> real list list \<Rightarrow> real list list" where
  "concatenate class_1 class_2 = class_1 @ class_2"

definition zeros :: "nat \<Rightarrow> nat \<Rightarrow> real list list" where
  "zeros n m = replicate n (replicate m 0)"

definition vec_sub :: "real list \<Rightarrow> real list \<Rightarrow> real list" where
  "vec_sub x y = map2 (-) x y"

definition linalg_norm :: "real list \<Rightarrow> real" where
  "linalg_norm v = sqrt (\<Sum>x\<leftarrow>v. \<bar>x\<bar>\<^sup>2)"

definition set_item :: "real list list \<Rightarrow> nat \<Rightarrow> nat \<Rightarrow> real \<Rightarrow> real list list" where
  "set_item w i j v = w[i := (w ! i)[j := v]]"

text \<open>
  \<^verbatim>\<open>w = np.zeros((n_instances, n_instances))\<close>,
  \<^verbatim>\<open>for i, j in itertools.product(*[range(n_instances)]*2): w[i, j] = np.linalg.norm(data[i]-data[j])\<close>.
\<close>

definition pairwise_distances :: "real list list \<Rightarrow> real list list" where
  "pairwise_distances data =
     fold (\<lambda>(i, j) w. set_item w i j (linalg_norm (vec_sub (data ! i) (data ! j))))
       (List.product [0..<n_instances] [0..<n_instances])
       (zeros n_instances n_instances)"

subsection \<open>The Ising model handed to the annealer\<close>

text \<open>
  A binary quadratic model keeps its linear and quadratic biases as dictionaries; they are
  association lists in insertion order here, and an assignment \<open>d[k] = v\<close> is
  \<open>AList.update k v d\<close> (it replaces the value of a key that is present and appends a
  new key). The energy of a sample is the sum of the linear terms, the quadratic terms and
  the offset. A sample gives each variable its value; it is the list of these values.
\<close>

datatype vartype = SPIN | BINARY

record bqm =
  bqm_linear :: "(nat \<times> real) list"
  bqm_quadratic :: "((nat \<times> nat) \<times> real) list"
  bqm_offset :: real
  bqm_vartype :: vartype

definition BinaryQuadraticModel ::
  "(nat \<times> real) list \<Rightarrow> ((nat \<times> nat) \<times> real) list \<Rightarrow> real \<Rightarrow> vartype \<Rightarrow> bqm" where
  "BinaryQuadraticModel h J off vt =
     \<lparr>bqm_linear = h, bqm_quadratic = J, bqm_offset = off, bqm_vartype = vt\<rparr>"

definition energy :: "bqm \<Rightarrow> int list \<Rightarrow> real" where
  "energy m sample =
     (\<Sum>(v, bias)\<leftarrow>bqm_linear m. bias * real_of_int (sample ! v))
     + (\<Sum>((u, v), bias)\<leftarrow>bqm_quadratic m.
          bias * real_of_int (sample ! u) * real_of_int (sample ! v))
     + bqm_offset m"

text \<open>
  \<^verbatim>\<open>J, h = {}, {}\<close>, then for \<open>i\<close> in \<open>range(n_instances)\<close>: \<open>h[i] = 0\<close> and, for \<open>j\<close>
  in \<open>range(i+1, n_instances)\<close>, \<open>J[(i, j)] = w[i, j]\<close>.
\<close>

definition ising_couplings ::
  "real list list \<Rightarrow> ((nat \<times> nat) \<times> real) list \<times> (nat \<times> real) list" where
  "ising_couplings w =
     fold (\<lambda>i (J, h).
            (let h = AList.update i 0 h;
                 J = fold (\<lambda>j J. AList.update (i, j) (w ! i ! j) J) [i + 1..<n_instances] J
             in (J, h)))
       [0..<n_instances] ([], [])"

definition ising_model :: "real list list \<Rightarrow> bqm" where
  "ising_model w = (let (J, h) = ising_couplings w in BinaryQuadraticModel h J 0 SPIN)"

text \<open>
  The max-cut reading of the markdown cell: a spin assignment splits the instances into
  the \<open>+1\<close> side and the \<open>-1\<close> side, and the weight of the cut is the total weight of the
  pairs it separates.
\<close>

definition upper_pairs :: "(nat \<times> nat) list" where
  "upper_pairs = concat (map (\<lambda>i. map (Pair i) [i + 1..<n_instances]) [0..<n_instances])"

definition total_weight :: "real list list \<Rightarrow> real" where
  "total_weight w = (\<Sum>(i, j)\<leftarrow>upper_pairs. w ! i ! j)"

definition cut_weight :: "real list list \<Rightarrow> int list \<Rightarrow> real" where
  "cut_weight w sigma = (\<Sum>(i, j)\<leftarrow>upper_pairs. if sigma ! i \<noteq> sigma ! j then w ! i ! j else 0)"

definition spin_assignments :: "int list list" where
  "spin_assignments = List.n_lists n_instances [1, - 1]"

definition min_energy :: "real list list \<Rightarrow> int list \<Rightarrow> bool" where
  "min_energy w sigma =
     list_all (\<lambda>tau. energy (ising_model w) sigma \<le> energy (ising_model w) tau) spin_assignments"

definition max_cut :: "real list list \<Rightarrow> int list \<Rightarrow> bool" where
  "max_cut w sigma = list_all (\<lambda>tau. cut_weight w tau \<le> cut_weight w sigma) spin_assignments"

section \<open>The Markov random field exercise\<close>

text \<open>
  \<^verbatim>\<open>n_variables = 4\<close>, \<^verbatim>\<open>h = {v: 1 for v in range(n_variables)}\<close>,
  \<^verbatim>\<open>J = {(0, 1): -1, (1, 2): -1}\<close>,
  \<^verbatim>\<open>model = dimod.BinaryQuadraticModel(h, J, 0.0, dimod.BINARY)\<close>.
\<close>

definition n_variables :: nat where
  "n_variables = 4"

definition mrf_h :: "(nat \<times> real) list" where
  "mrf_h = fold (\<lambda>v h. AList.update v 1 h) [0..<n_variables] []"

definition mrf_J :: "((nat \<times> nat) \<times> real) list" where
  "mrf_J = AList.update (1, 2) (- 1) (AList.update (0, 1) (- 1) [])"

definition mrf_model :: bqm where
  "mrf_model = BinaryQuadraticModel mrf_h mrf_J 0 BINARY"

text \<open>
  The assertions of the grading cell of the exercise (its first assertion, that \<open>model\<close>
  is a \<open>BinaryQuadraticModel\<close>, is the type of the argument; \<open>model.variables\<close> are the
  keys of \<open>model.linear\<close>).
\<close>

definition mrf_grading :: "bqm \<Rightarrow> bool" where
  "mrf_grading model \<longleftrightarrow>
     bqm_vartype model = BINARY
     \<and> length (bqm_linear model) = 4
     \<and> map fst (bqm_linear model) = [0, 1, 2, 3]
     \<and> map snd (bqm_linear model) = [1, 1, 1, 1]
     \<and> map fst (bqm_quadratic model) = [(0, 1), (1, 2)]
     \<and> map snd (bqm_quadratic model) = [- 1, - 1]"

text \<open>
  The distribution of the Markov network, \<open>P(x) = exp (- E(x)) / Z\<close> over the assignments
  of 0 and 1 to the four variables (temperature 1, as in the exercise that estimates the
  partition function). \<open>probability model ev\<close> is the probability of the event \<open>ev\<close>.
\<close>

definition binary_assignments :: "int list list" where
  "binary_assignments = List.n_lists n_variables [0, 1]"

definition boltzmann_weight :: "bqm \<Rightarrow> int list \<Rightarrow> real" where
  "boltzmann_weight model x = exp (- energy model x)"

definition partition_function :: "bqm \<Rightarrow> real" where
  "partition_function model = (\<Sum>x\<leftarrow>binary_assignments. boltzmann_weight model x)"

definition probability :: "bqm \<Rightarrow> (int list \<Rightarrow> bool) \<Rightarrow> real" where
  "probability model ev =
     (\<Sum>x\<leftarrow>filter ev binary_assignments. boltzmann_weight model x) / partition_function model"

text \<open>
  \<open>X4\<close> (variable 3) is independent of the other variables when every joint probability is
  the product of the two marginals; \<open>X1\<close> and \<open>X3\<close> (variables 0 and 2) are conditionally
  independent given \<open>X2\<close> (variable 1) when \<open>P(x1, x2, x3) P(x2) = P(x1, x2) P(x2, x3)\<close> for
  all values.
\<close>

definition x4_independent :: "bqm \<Rightarrow> bool" where
  "x4_independent model =
     list_all (\<lambda>x. probability model (\<lambda>y. y = x) =
                    probability model (\<lambda>y. take 3 y = take 3 x)
                    * probability model (\<lambda>y. y ! 3 = x ! 3))
       binary_assignments"

definition x1_x3_independent_given_x2 :: "bqm \<Rightarrow> bool" where
  "x1_x3_independent_given_x2 model =
     list_all (\<lambda>x. probability model (\<lambda>y. take 3 y = take 3 x)
                    * probability model (\<lambda>y. y ! 1 = x ! 1) =
                    probability model (\<lambda>y. take 2 y = take 2 x)
                    * probability model (\<lambda>y. y ! 1 = x ! 1 \<and> y ! 2 = x ! 2))
       binary_assignments"

section \<open>Library calls that raise\<close>

text \<open>
  No cell of the notebooks contains \<open>try\<close>, \<open>except\<close>, \<open>finally\<close>, \<open>raise\<close> or a retry loop:
  a cell is a straight sequence of statements, and a statement evaluates library calls.
  The library is outside the repository, so it is a parameter here: a function from the
  name of a routine and its argument values to a value or an exception. Values are the
  literals the cells write and opaque library objects.
\<close>

datatype pyval = PyInt int | PyFloat real | PyStr string | PyObject nat

type_synonym namespace = "string \<Rightarrow> pyval option"

type_synonym library = "string \<Rightarrow> pyval list \<Rightarrow> error + pyval"

type_synonym expr = "namespace \<Rightarrow> error + pyval"

definition then_do :: "error + 'a \<Rightarrow> ('a \<Rightarrow> error + 'b) \<Rightarrow> error + 'b" where
  "then_do m f = (case m of Inl e \<Rightarrow> Inl e | Inr v \<Rightarrow> f v)"



fun eval_args :: "expr list \<Rightarrow> namespace \<Rightarrow> error + pyval list" where
  "eval_args [] ns = Inr []"
| "eval_args (a # as) ns =
     then_do (a ns) (\<lambda>v. then_do (eval_args as ns) (\<lambda>vs. Inr (v # vs)))"

definition call :: "library \<Rightarrow> string \<Rightarrow> expr list \<Rightarrow> expr" where
  "call lib name args ns = then_do (eval_args args ns) (lib name)"




section \<open>Other fixed inputs of the notebooks\<close>





section \<open>Evaluating the simulator\<close>

lemma upt_4: "[0..<4] = [0, 1, 2, 3::nat]"
  by (simp add: upt_rec)

lemma apply_gate_4:
  "length psi = 4 \<Longrightarrow> apply_gate g psi = map (gate_amp g psi) [0, 1, 2, 3]"
  by (simp add: apply_gate_def upt_4)

lemma inv_sqrt2_sq: "inv_sqrt2 * inv_sqrt2 = 1 / 2"
  by (simp add: inv_sqrt2_def flip: of_real_mult)

lemma inv_sqrt2_sq_left: "inv_sqrt2 * (inv_sqrt2 * z) = z / 2"
  using inv_sqrt2_sq by (simp flip: mult.assoc)

lemma cmod_inv_sqrt2_sq: "(cmod inv_sqrt2)\<^sup>2 = 1 / 2"
  by (simp add: inv_sqrt2_def norm_divide power_divide)

lemma bell_instructions: "instructions bell_circuit = [HGate 0, CnotGate 0 1]"
  by (simp add: bell_circuit_def qc_h_def qc_cx_def append_gate_def QuantumCircuit_def)

lemma bell_n_qubits: "n_qubits bell_circuit = 2"
  by (simp add: bell_circuit_def qc_h_def qc_cx_def append_gate_def QuantumCircuit_def)

lemma bell_statevector: "get_statevector bell_circuit = [inv_sqrt2, 0, 0, inv_sqrt2]"
proof -
  have z: "zero_state 2 = [1, 0, 0, 0]"
    by (simp add: zero_state_def numeral_eq_Suc)
  have h: "apply_gate (HGate 0) [1, 0, 0, 0] = [inv_sqrt2, inv_sqrt2, 0, 0]"
    by (simp add: apply_gate_4 apply_u_def bit_set_def)
  have cx: "apply_gate (CnotGate 0 (Suc 0)) [inv_sqrt2, inv_sqrt2, 0, 0] = [inv_sqrt2, 0, 0, inv_sqrt2]"
    by (simp add: apply_gate_4 apply_u_def bit_set_def)
  show ?thesis
    by (simp add: get_statevector_def run_circuit_def bell_instructions bell_n_qubits z h cx)
qed

section \<open>Evaluating the four-qubit circuit\<close>

lemma upt_16: "[0..<16] = [0, 1, 2, 3, 4, 5, 6, 7, 8, 9, 10, 11, 12, 13, 14, 15::nat]"
  by (simp add: upt_rec)

lemma apply_gate_16:
  "length psi = 16 \<Longrightarrow>
   apply_gate g psi = map (gate_amp g psi) [0, 1, 2, 3, 4, 5, 6, 7, 8, 9, 10, 11, 12, 13, 14, 15]"
  by (simp add: apply_gate_def upt_16)

text \<open>The action of each gate of the circuit on an arbitrary vector of 16 amplitudes.\<close>

lemma H_1_action:
  "apply_gate (HGate (Suc 0)) [a0, a1, a2, a3, a4, a5, a6, a7, a8, a9, a10, a11, a12, a13, a14, a15] =
     [inv_sqrt2 * a0 + inv_sqrt2 * a2,
      inv_sqrt2 * a1 + inv_sqrt2 * a3,
      inv_sqrt2 * a0 - inv_sqrt2 * a2,
      inv_sqrt2 * a1 - inv_sqrt2 * a3,
      inv_sqrt2 * a4 + inv_sqrt2 * a6,
      inv_sqrt2 * a5 + inv_sqrt2 * a7,
      inv_sqrt2 * a4 - inv_sqrt2 * a6,
      inv_sqrt2 * a5 - inv_sqrt2 * a7,
      inv_sqrt2 * a8 + inv_sqrt2 * a10,
      inv_sqrt2 * a9 + inv_sqrt2 * a11,
      inv_sqrt2 * a8 - inv_sqrt2 * a10,
      inv_sqrt2 * a9 - inv_sqrt2 * a11,
      inv_sqrt2 * a12 + inv_sqrt2 * a14,
      inv_sqrt2 * a13 + inv_sqrt2 * a15,
      inv_sqrt2 * a12 - inv_sqrt2 * a14,
      inv_sqrt2 * a13 - inv_sqrt2 * a15]"
  by (simp add: apply_gate_16 apply_u_def bit_set_def)

lemma H_2_action:
  "apply_gate (HGate 2) [a0, a1, a2, a3, a4, a5, a6, a7, a8, a9, a10, a11, a12, a13, a14, a15] =
     [inv_sqrt2 * a0 + inv_sqrt2 * a4,
      inv_sqrt2 * a1 + inv_sqrt2 * a5,
      inv_sqrt2 * a2 + inv_sqrt2 * a6,
      inv_sqrt2 * a3 + inv_sqrt2 * a7,
      inv_sqrt2 * a0 - inv_sqrt2 * a4,
      inv_sqrt2 * a1 - inv_sqrt2 * a5,
      inv_sqrt2 * a2 - inv_sqrt2 * a6,
      inv_sqrt2 * a3 - inv_sqrt2 * a7,
      inv_sqrt2 * a8 + inv_sqrt2 * a12,
      inv_sqrt2 * a9 + inv_sqrt2 * a13,
      inv_sqrt2 * a10 + inv_sqrt2 * a14,
      inv_sqrt2 * a11 + inv_sqrt2 * a15,
      inv_sqrt2 * a8 - inv_sqrt2 * a12,
      inv_sqrt2 * a9 - inv_sqrt2 * a13,
      inv_sqrt2 * a10 - inv_sqrt2 * a14,
      inv_sqrt2 * a11 - inv_sqrt2 * a15]"
  by (simp add: apply_gate_16 apply_u_def bit_set_def)

lemma X_3_action:
  "apply_gate (XGate 3) [a0, a1, a2, a3, a4, a5, a6, a7, a8, a9, a10, a11, a12, a13, a14, a15] =
     [a8,
      a9,
      a10,
      a11,
      a12,
      a13,
      a14,
      a15,
      a0,
      a1,
      a2,
      a3,
      a4,
      a5,
      a6,
      a7]"
  by (simp add: apply_gate_16 apply_u_def bit_set_def)

lemma CZ_2_3_action:
  "apply_gate (CzGate 2 3) [a0, a1, a2, a3, a4, a5, a6, a7, a8, a9, a10, a11, a12, a13, a14, a15] =
     [a0,
      a1,
      a2,
      a3,
      a4,
      a5,
      a6,
      a7,
      a8,
      a9,
      a10,
      a11,
      - a12,
      - a13,
      - a14,
      - a15]"
  by (simp add: apply_gate_16 apply_u_def bit_set_def)

lemma SWAP_1_2_action:
  "apply_gate (SwapGate (Suc 0) 2) [a0, a1, a2, a3, a4, a5, a6, a7, a8, a9, a10, a11, a12, a13, a14, a15] =
     [a0,
      a1,
      a4,
      a5,
      a2,
      a3,
      a6,
      a7,
      a8,
      a9,
      a12,
      a13,
      a10,
      a11,
      a14,
      a15]"
  by (simp add: apply_gate_16 apply_u_def bit_set_def swap_bits_def)

lemma CU1_1_2_action:
  "apply_gate (Cu1Gate lam (Suc 0) 2) [a0, a1, a2, a3, a4, a5, a6, a7, a8, a9, a10, a11, a12, a13, a14, a15] =
     [a0,
      a1,
      a2,
      a3,
      a4,
      a5,
      cis lam * a6,
      cis lam * a7,
      a8,
      a9,
      a10,
      a11,
      a12,
      a13,
      cis lam * a14,
      cis lam * a15]"
  by (simp add: apply_gate_16 apply_u_def bit_set_def)

lemma CU3_1_0_action:
  "apply_gate (Cu3Gate theta 0 0 (Suc 0) 0) [a0, a1, a2, a3, a4, a5, a6, a7, a8, a9, a10, a11, a12, a13, a14, a15] =
     [a0,
      a1,
      complex_of_real (cos (theta / 2)) * a2 - complex_of_real (sin (theta / 2)) * a3,
      complex_of_real (sin (theta / 2)) * a2 + complex_of_real (cos (theta / 2)) * a3,
      a4,
      a5,
      complex_of_real (cos (theta / 2)) * a6 - complex_of_real (sin (theta / 2)) * a7,
      complex_of_real (sin (theta / 2)) * a6 + complex_of_real (cos (theta / 2)) * a7,
      a8,
      a9,
      complex_of_real (cos (theta / 2)) * a10 - complex_of_real (sin (theta / 2)) * a11,
      complex_of_real (sin (theta / 2)) * a10 + complex_of_real (cos (theta / 2)) * a11,
      a12,
      a13,
      complex_of_real (cos (theta / 2)) * a14 - complex_of_real (sin (theta / 2)) * a15,
      complex_of_real (sin (theta / 2)) * a14 + complex_of_real (cos (theta / 2)) * a15]"
  by (simp add: apply_gate_16 apply_u_def bit_set_def)

lemma CU3_2_0_action:
  "apply_gate (Cu3Gate theta 0 0 2 0) [a0, a1, a2, a3, a4, a5, a6, a7, a8, a9, a10, a11, a12, a13, a14, a15] =
     [a0,
      a1,
      a2,
      a3,
      complex_of_real (cos (theta / 2)) * a4 - complex_of_real (sin (theta / 2)) * a5,
      complex_of_real (sin (theta / 2)) * a4 + complex_of_real (cos (theta / 2)) * a5,
      complex_of_real (cos (theta / 2)) * a6 - complex_of_real (sin (theta / 2)) * a7,
      complex_of_real (sin (theta / 2)) * a6 + complex_of_real (cos (theta / 2)) * a7,
      a8,
      a9,
      a10,
      a11,
      complex_of_real (cos (theta / 2)) * a12 - complex_of_real (sin (theta / 2)) * a13,
      complex_of_real (sin (theta / 2)) * a12 + complex_of_real (cos (theta / 2)) * a13,
      complex_of_real (cos (theta / 2)) * a14 - complex_of_real (sin (theta / 2)) * a15,
      complex_of_real (sin (theta / 2)) * a14 + complex_of_real (cos (theta / 2)) * a15]"
  by (simp add: apply_gate_16 apply_u_def bit_set_def)


lemmas gate_actions =
  H_1_action H_2_action X_3_action CZ_2_3_action SWAP_1_2_action CU1_1_2_action
  CU3_1_0_action CU3_2_0_action inv_sqrt2_sq inv_sqrt2_sq_left

lemma zero_state_4: "zero_state 4 = [1, 0, 0, 0, 0, 0, 0, 0, 0, 0, 0, 0, 0, 0, 0, 0]"
  by (simp add: zero_state_def numeral_eq_Suc)

lemma state_ex1:
  "fold apply_gate [HGate 1, HGate 2, XGate 3] (zero_state 4) =
     [0, 0, 0, 0, 0, 0, 0, 0, 1 / 2, 0, 1 / 2, 0, 1 / 2, 0, 1 / 2, 0]"
  by (simp add: zero_state_4 gate_actions)

lemma state_ex2:
  "fold apply_gate [CzGate 2 3]
     [0, 0, 0, 0, 0, 0, 0, 0, 1 / 2, 0, 1 / 2, 0, 1 / 2, 0, 1 / 2, 0] =
     [0, 0, 0, 0, 0, 0, 0, 0, 1 / 2, 0, 1 / 2, 0, - (1 / 2), 0, - (1 / 2), 0]"
  by (simp add: gate_actions)

lemma state_ex3:
  "fold apply_gate [SwapGate 1 2, HGate 2, Cu1Gate (- pi / 2) 1 2, HGate 1]
     [0, 0, 0, 0, 0, 0, 0, 0, 1 / 2, 0, 1 / 2, 0, - (1 / 2), 0, - (1 / 2), 0] =
     [0, 0, 0, 0, 0, 0, 0, 0, 0, 0, 1, 0, 0, 0, 0, 0]"
  by (simp add: gate_actions)

lemma state_ex4:
  "fold apply_gate [SwapGate 1 2, Cu3Gate 0.392699 0 0 1 0, Cu3Gate 0.19634955 0 0 2 0]
     [0, 0, 0, 0, 0, 0, 0, 0, 0, 0, 1, 0, 0, 0, 0, 0] =
     [0, 0, 0, 0, 0, 0, 0, 0, 0, 0, 0, 0,
      complex_of_real (cos (0.19634955 / 2)), complex_of_real (sin (0.19634955 / 2)), 0, 0]"
  by (simp add: gate_actions)

lemma state_ex5:
  "fold apply_gate
     [SwapGate 1 2, HGate 1, Cu1Gate (pi / 2) 1 2, HGate 2,
      SwapGate 1 2, CzGate 2 3, HGate 1, HGate 2]
     [0, 0, 0, 0, 0, 0, 0, 0, 0, 0, 0, 0, a, b, 0, 0] =
     [0, 0, 0, 0, 0, 0, 0, 0, a, b, 0, 0, 0, 0, 0, 0]"
  by (simp add: gate_actions)

subsection \<open>The circuit after each exercise\<close>

lemma exercise1_instructions:
  "exercise1_solution =
     \<lparr>n_qubits = 4, n_clbits = 4, instructions = [HGate 1, HGate 2, XGate 3]\<rparr>"
  by (simp add: exercise1_solution_def qc_h_def qc_x_def append_gate_def QuantumCircuit_def)

lemma exercise2_instructions:
  "exercise2_solution hhl = hhl\<lparr>instructions := instructions hhl @ [CzGate 2 3]\<rparr>"
  by (simp add: exercise2_solution_def qc_cz_def append_gate_def)

lemma exercise3_instructions:
  "exercise3_solution hhl =
     hhl\<lparr>instructions := instructions hhl @
       [SwapGate 1 2, HGate 2, Cu1Gate (- pi / 2) 1 2, HGate 1]\<rparr>"
  by (simp add: exercise3_solution_def qc_swap_def qc_h_def qc_cu1_def append_gate_def)

lemma exercise4_instructions:
  "exercise4_solution hhl =
     hhl\<lparr>instructions := instructions hhl @
       [SwapGate 1 2, Cu3Gate 0.392699 0 0 1 0, Cu3Gate 0.19634955 0 0 2 0]\<rparr>"
  by (simp add: exercise4_solution_def qc_swap_def qc_cu3_def append_gate_def)

lemma exercise5_instructions:
  "exercise5_solution hhl =
     hhl\<lparr>instructions := instructions hhl @
       [SwapGate 1 2, HGate 1, Cu1Gate (pi / 2) 1 2, HGate 2,
        SwapGate 1 2, CzGate 2 3, HGate 1, HGate 2]\<rparr>"
  by (simp add: exercise5_solution_def qc_swap_def qc_h_def qc_cu1_def qc_cz_def append_gate_def)

lemmas hhl_after_defs =
  hhl_after_exercise1_def hhl_after_exercise2_def hhl_after_exercise3_def
  hhl_after_exercise4_def hhl_after_exercise5_def

lemmas exercise_instructions =
  exercise1_instructions exercise2_instructions exercise3_instructions
  exercise4_instructions exercise5_instructions

lemma hhl_after_exercise4_eq:
  "hhl_after_exercise4 =
     \<lparr>n_qubits = 4, n_clbits = 4,
      instructions =
        [HGate 1, HGate 2, XGate 3]
        @ [CzGate 2 3]
        @ [SwapGate 1 2, HGate 2, Cu1Gate (- pi / 2) 1 2, HGate 1]
        @ [SwapGate 1 2, Cu3Gate 0.392699 0 0 1 0, Cu3Gate 0.19634955 0 0 2 0]\<rparr>"
  by (simp add: hhl_after_defs exercise_instructions)

lemma hhl_after_exercise5_eq:
  "hhl_after_exercise5 =
     \<lparr>n_qubits = 4, n_clbits = 4,
      instructions =
        [HGate 1, HGate 2, XGate 3]
        @ [CzGate 2 3]
        @ [SwapGate 1 2, HGate 2, Cu1Gate (- pi / 2) 1 2, HGate 1]
        @ [SwapGate 1 2, Cu3Gate 0.392699 0 0 1 0, Cu3Gate 0.19634955 0 0 2 0]
        @ [SwapGate 1 2, HGate 1, Cu1Gate (pi / 2) 1 2, HGate 2,
           SwapGate 1 2, CzGate 2 3, HGate 1, HGate 2]\<rparr>"
  by (simp add: hhl_after_defs exercise_instructions)

lemma get_statevector_append:
  "get_statevector (hhl\<lparr>instructions := instructions hhl @ gs\<rparr>) =
     fold apply_gate gs (get_statevector hhl)"
  by (simp add: get_statevector_def run_circuit_def)

lemma statevector_after_1:
  "get_statevector hhl_after_exercise1 =
     [0, 0, 0, 0, 0, 0, 0, 0, 1 / 2, 0, 1 / 2, 0, 1 / 2, 0, 1 / 2, 0]"
  using state_ex1
  by (simp add: hhl_after_exercise1_def exercise1_instructions get_statevector_def
      run_circuit_def)

lemma statevector_after_2:
  "get_statevector hhl_after_exercise2 =
     [0, 0, 0, 0, 0, 0, 0, 0, 1 / 2, 0, 1 / 2, 0, - (1 / 2), 0, - (1 / 2), 0]"
  unfolding hhl_after_exercise2_def exercise2_instructions get_statevector_append
    statevector_after_1
  by (rule state_ex2)

lemma statevector_after_3:
  "get_statevector hhl_after_exercise3 = [0, 0, 0, 0, 0, 0, 0, 0, 0, 0, 1, 0, 0, 0, 0, 0]"
  unfolding hhl_after_exercise3_def exercise3_instructions get_statevector_append
    statevector_after_2
  by (rule state_ex3)

lemma statevector_after_4:
  "get_statevector hhl_after_exercise4 =
     [0, 0, 0, 0, 0, 0, 0, 0, 0, 0, 0, 0,
      complex_of_real (cos (0.19634955 / 2)), complex_of_real (sin (0.19634955 / 2)), 0, 0]"
  unfolding hhl_after_exercise4_def exercise4_instructions get_statevector_append
    statevector_after_3
  by (rule state_ex4)

lemma statevector_after_5:
  "get_statevector hhl_after_exercise5 =
     [0, 0, 0, 0, 0, 0, 0, 0,
      complex_of_real (cos (0.19634955 / 2)), complex_of_real (sin (0.19634955 / 2)),
      0, 0, 0, 0, 0, 0]"
  unfolding hhl_after_exercise5_def exercise5_instructions get_statevector_append
    statevector_after_4
  by (rule state_ex5)

subsection \<open>Bounds on the rotation's cosine and sine\<close>

lemma sum_lessThan_6: "(\<Sum>m<6. f m) = f 0 + f 1 + f 2 + f 3 + f 4 + f 5"
  for f :: "nat \<Rightarrow> real"
proof -
  have "{..<6::nat} = {0, 1, 2, 3, 4, 5}" by auto
  then show ?thesis by simp
qed

lemma sum_lessThan_5: "(\<Sum>m<5. f m) = f 0 + f 1 + f 2 + f 3 + f 4"
  for f :: "nat \<Rightarrow> real"
proof -
  have "{..<5::nat} = {0, 1, 2, 3, 4}" by auto
  then show ?thesis by simp
qed

lemma cos_poly: "(\<Sum>m<6. cos_coeff m * x ^ m) = 1 - x\<^sup>2 / 2 + x ^ 4 / 24"
  by (simp add: sum_lessThan_6 cos_coeff_def fact_numeral)

lemma sin_poly: "(\<Sum>m<5. sin_coeff m * x ^ m) = x - x ^ 3 / 6"
  by (simp add: sum_lessThan_5 sin_coeff_def fact_numeral)

lemma cos_approx: "\<bar>cos x - (1 - x\<^sup>2 / 2 + x ^ 4 / 24)\<bar> \<le> \<bar>x\<bar> ^ 6 / 720"
  for x :: real
proof -
  obtain t where t:
    "cos x = (\<Sum>m<6. cos_coeff m * x ^ m) + (cos (t + 1 / 2 * real 6 * pi) / fact 6) * x ^ 6"
    using Maclaurin_cos_expansion [of x 6] by blast
  have f6: "fact 6 = (720::real)"
    by (simp add: fact_numeral)
  have "\<bar>cos x - (1 - x\<^sup>2 / 2 + x ^ 4 / 24)\<bar> =
        \<bar>cos (t + 1 / 2 * real 6 * pi)\<bar> * \<bar>x\<bar> ^ 6 / 720"
    unfolding t cos_poly f6 by (simp add: abs_mult power_abs)
  also have "\<dots> \<le> 1 * \<bar>x\<bar> ^ 6 / 720"
    by (intro divide_right_mono mult_right_mono abs_cos_le_one) simp_all
  finally show ?thesis by simp
qed

lemma sin_approx: "\<bar>sin x - (x - x ^ 3 / 6)\<bar> \<le> \<bar>x\<bar> ^ 5 / 120"
  for x :: real
proof -
  have f5: "fact 5 = (120::real)"
    by (simp add: fact_numeral)
  have "\<bar>sin x - (\<Sum>m<5. sin_coeff m * x ^ m)\<bar> \<le> inverse (fact 5) * \<bar>x\<bar> ^ 5"
    by (rule Maclaurin_sin_bound)
  then show ?thesis
    unfolding sin_poly f5 by simp
qed

lemma cos_close:
  "\<bar>cos (0.19634955 / 2) - 0.99518473\<bar> \<le> 2 / (100000000 :: real)"
proof -
  define x :: real where "x = 0.19634955 / 2"
  have a: "\<bar>cos x - (1 - x\<^sup>2 / 2 + x ^ 4 / 24)\<bar> \<le> \<bar>x\<bar> ^ 6 / 720"
    by (rule cos_approx)
  have b: "\<bar>x\<bar> ^ 6 / 720 \<le> 1 / 100000000"
    by (simp add: x_def power_divide)
  have c: "\<bar>(1 - x\<^sup>2 / 2 + x ^ 4 / 24) - 0.99518473\<bar> \<le> 1 / 100000000"
    by (simp add: x_def power_divide)
  have "\<bar>cos x - 0.99518473\<bar> \<le> 2 / 100000000"
    using a b c by linarith
  then show ?thesis
    by (simp add: x_def)
qed

lemma sin_close:
  "\<bar>sin (0.19634955 / 2) - 0.09801714\<bar> \<le> 16 / (100000000 :: real)"
proof -
  define x :: real where "x = 0.19634955 / 2"
  have a: "\<bar>sin x - (x - x ^ 3 / 6)\<bar> \<le> \<bar>x\<bar> ^ 5 / 120"
    by (rule sin_approx)
  have b: "\<bar>x\<bar> ^ 5 / 120 \<le> 8 / 100000000"
    by (simp add: x_def power_divide)
  have c: "\<bar>(x - x ^ 3 / 6) - 0.09801714\<bar> \<le> 8 / 100000000"
    by (simp add: x_def power_divide)
  have "\<bar>sin x - 0.09801714\<bar> \<le> 16 / 100000000"
    using a b c by linarith
  then show ?thesis
    by (simp add: x_def)
qed

subsection \<open>The grading comparisons\<close>

lemma isclose_real: "isclose (complex_of_real a) (Complex b 0) = (\<bar>a - b\<bar> \<le> atol + rtol * \<bar>b\<bar>)"
proof -
  have "Complex b 0 = complex_of_real b"
    by (simp add: complex_of_real_def)
  then show ?thesis
    by (simp add: isclose_def flip: of_real_diff)
qed

lemma isclose_same: "isclose (complex_of_real a) (Complex a 0)"
  by (simp add: isclose_real atol_def rtol_def)

lemma isclose_zero: "isclose 0 (Complex 0 0)"
  using isclose_same [of 0] by simp

lemma isclose_one: "isclose 1 (Complex 1 0)"
  using isclose_same [of 1] by simp

lemma isclose_half: "isclose (1 / 2) (Complex 0.5 0)"
  using isclose_same [of "0.5"] by simp

lemma isclose_minus_half: "isclose (- (1 / 2)) (Complex (- 0.5) 0)"
  using isclose_same [of "- 0.5"] by simp

lemma isclose_cos: "isclose (complex_of_real (cos (0.19634955 / 2))) (Complex 0.99518473 0)"
  using cos_close by (simp add: isclose_real atol_def rtol_def)

lemma isclose_sin: "isclose (complex_of_real (sin (0.19634955 / 2))) (Complex 0.09801714 0)"
  using sin_close by (simp add: isclose_real atol_def rtol_def)

lemmas isclose_facts =
  isclose_zero isclose_one isclose_half isclose_minus_half isclose_cos isclose_sin

lemma grade_1: "allclose (get_amplitudes hhl_after_exercise1) exercise1_expected"
  unfolding get_amplitudes_def statevector_after_1 allclose_def exercise1_expected_def
  by (simp only: list_all2_Cons list_all2_Nil isclose_facts simp_thms)

lemma grade_2: "allclose (get_amplitudes hhl_after_exercise2) exercise2_expected"
  unfolding get_amplitudes_def statevector_after_2 allclose_def exercise2_expected_def
  by (simp only: list_all2_Cons list_all2_Nil isclose_facts simp_thms)

lemma grade_3: "allclose (get_amplitudes hhl_after_exercise3) exercise3_expected"
  unfolding get_amplitudes_def statevector_after_3 allclose_def exercise3_expected_def
  by (simp only: list_all2_Cons list_all2_Nil isclose_facts simp_thms)

lemma grade_4: "allclose (get_amplitudes hhl_after_exercise4) exercise4_expected"
  unfolding get_amplitudes_def statevector_after_4 allclose_def exercise4_expected_def
  by (simp only: list_all2_Cons list_all2_Nil isclose_facts simp_thms)

lemma grade_5: "allclose (get_amplitudes hhl_after_exercise5) exercise5_expected"
  unfolding get_amplitudes_def statevector_after_5 allclose_def exercise5_expected_def
  by (simp only: list_all2_Cons list_all2_Nil isclose_facts simp_thms)

lemma notebook_run:
  "run_cells matrix_inversion_notebook fresh_namespace =
     Inr \<lparr>ns_hhl = Some hhl_after_exercise5,
          ns_amplitudes = Some (get_amplitudes hhl_after_exercise5)\<rparr>"
proof -
  have g: "allclose (get_amplitudes exercise1_solution) exercise1_expected"
    "allclose (get_amplitudes (exercise2_solution exercise1_solution)) exercise2_expected"
    "allclose (get_amplitudes (exercise3_solution (exercise2_solution exercise1_solution)))
       exercise3_expected"
    "allclose
       (get_amplitudes
         (exercise4_solution (exercise3_solution (exercise2_solution exercise1_solution))))
       exercise4_expected"
    "allclose
       (get_amplitudes
         (exercise5_solution
           (exercise4_solution (exercise3_solution (exercise2_solution exercise1_solution)))))
       exercise5_expected"
    using grade_1 grade_2 grade_3 grade_4 grade_5 by (simp_all only: hhl_after_defs)
  show ?thesis
    by (simp add: matrix_inversion_notebook_def fresh_namespace_def exercise1_cell_def
        solution_cell_def grading_cell_def show_amplitudes_cell_def hhl_after_defs g)
qed

section \<open>The distance matrix\<close>

lemma set_item_nth:
  assumes "i < length w" and "j < length (w ! i)"
  shows "set_item w i j v ! a ! b = (if a = i \<and> b = j then v else w ! a ! b)"
  using assms by (simp add: set_item_def nth_list_update)

lemma set_item_shape:
  assumes "length w = n" and "\<forall>r\<in>set w. length r = m"
  shows "length (set_item w i j v) = n \<and> (\<forall>r\<in>set (set_item w i j v). length r = m)"
proof (cases "i < length w")
  case True
  then have "w ! i \<in> set w"
    by simp
  then have row: "length ((w ! i)[j := v]) = m"
    using assms(2) by simp
  have sub: "set (w[i := (w ! i)[j := v]]) \<subseteq> insert ((w ! i)[j := v]) (set w)"
    by (rule set_update_subset_insert)
  have "length r = m" if "r \<in> set (w[i := (w ! i)[j := v]])" for r
  proof -
    from that sub have "r = (w ! i)[j := v] \<or> r \<in> set w"
      by blast
    then show ?thesis
      using row assms(2) by blast
  qed
  then show ?thesis
    using assms(1) by (simp add: set_item_def)
next
  case False
  then have "w[i := (w ! i)[j := v]] = w"
    by (simp add: list_update_beyond)
  then show ?thesis
    using assms by (simp add: set_item_def)
qed

lemma fold_set_item:
  assumes "length w = n" and "\<forall>r\<in>set w. length r = n"
    and "\<forall>(i, j)\<in>set ps. i < n \<and> j < n"
  shows "fold (\<lambda>(i, j) w. set_item w i j (f i j)) ps w ! a ! b =
           (if (a, b) \<in> set ps then f a b else w ! a ! b)"
  using assms
proof (induction ps arbitrary: w rule: rev_induct)
  case Nil
  then show ?case by simp
next
  case (snoc p ps)
  obtain i j where p: "p = (i, j)"
    by (cases p)
  let ?w = "fold (\<lambda>(i, j) w. set_item w i j (f i j)) ps w"
  have shape: "length ?w = n \<and> (\<forall>r\<in>set ?w. length r = n)"
    using snoc.prems(1,2)
  proof (induction ps arbitrary: w)
    case Nil
    then show ?case by simp
  next
    case (Cons q qs)
    obtain k l where q: "q = (k, l)"
      by (cases q)
    show ?case
      using Cons.IH [of "set_item w k l (f k l)"] set_item_shape [OF Cons.prems]
      by (simp add: q)
  qed
  have ij: "i < n" "j < n"
    using snoc.prems(3) by (simp_all add: p)
  have bounds: "i < length ?w" "j < length (?w ! i)"
    using shape ij by simp_all
  have ih: "?w ! a ! b = (if (a, b) \<in> set ps then f a b else w ! a ! b)"
    using snoc.IH [OF snoc.prems(1,2)] snoc.prems(3) by simp
  show ?case
    using set_item_nth [OF bounds, of "f i j" a b] ih by (auto simp: p)
qed

lemma pairwise_distances_nth:
  assumes "i < n_instances" and "j < n_instances"
  shows "pairwise_distances data ! i ! j = linalg_norm (vec_sub (data ! i) (data ! j))"
proof -
  have "fold (\<lambda>(i, j) w. set_item w i j (linalg_norm (vec_sub (data ! i) (data ! j))))
          (List.product [0..<n_instances] [0..<n_instances]) (zeros n_instances n_instances) ! i ! j =
        (if (i, j) \<in> set (List.product [0..<n_instances] [0..<n_instances])
         then linalg_norm (vec_sub (data ! i) (data ! j))
         else zeros n_instances n_instances ! i ! j)"
    by (rule fold_set_item [where n = n_instances]) (auto simp: zeros_def)
  then show ?thesis
    using assms by (simp add: pairwise_distances_def)
qed

lemma sum_squares_sub_commute: "(\<Sum>v\<leftarrow>vec_sub x y. v\<^sup>2) = (\<Sum>v\<leftarrow>vec_sub y x. v\<^sup>2)"
  by (induction x y rule: list_induct2') (simp_all add: vec_sub_def power2_commute)

lemma sum_squares_sub_self: "(\<Sum>v\<leftarrow>vec_sub x x. v\<^sup>2) = 0"
  by (induction x) (simp_all add: vec_sub_def)

lemma linalg_norm_commute: "linalg_norm (vec_sub x y) = linalg_norm (vec_sub y x)"
  by (simp add: linalg_norm_def sum_squares_sub_commute)

lemma linalg_norm_self: "linalg_norm (vec_sub x x) = 0"
  by (simp add: linalg_norm_def sum_squares_sub_self)

section \<open>The Ising model of the distance matrix\<close>

lemma upper_pairs_eq: "upper_pairs = [(0, 1), (0, 2), (0, 3), (1, 2), (1, 3), (2, 3)]"
  by (simp add: upper_pairs_def n_instances_def upt_rec)

lemma ising_couplings_eq:
  "ising_couplings w =
     ([((0, 1), w ! 0 ! 1), ((0, 2), w ! 0 ! 2), ((0, 3), w ! 0 ! 3),
       ((1, 2), w ! 1 ! 2), ((1, 3), w ! 1 ! 3), ((2, 3), w ! 2 ! 3)],
      [(0, 0), (1, 0), (2, 0), (3, 0)])"
  by (simp add: ising_couplings_def n_instances_def upt_rec eval_nat_numeral)

lemma ising_model_eq:
  "ising_model w =
     \<lparr>bqm_linear = [(0, 0), (1, 0), (2, 0), (3, 0)],
      bqm_quadratic = map (\<lambda>(i, j). ((i, j), w ! i ! j)) upper_pairs,
      bqm_offset = 0, bqm_vartype = SPIN\<rparr>"
  by (simp add: ising_model_def ising_couplings_eq BinaryQuadraticModel_def upper_pairs_eq)

lemma energy_ising:
  "energy (ising_model w) sigma =
     (\<Sum>(i, j)\<leftarrow>upper_pairs. w ! i ! j * real_of_int (sigma ! i) * real_of_int (sigma ! j))"
  by (simp add: ising_model_eq energy_def upper_pairs_eq)

lemma set_spin_assignments:
  "set spin_assignments = {sigma. length sigma = n_instances \<and> set sigma \<subseteq> {1, - 1}}"
  by (simp add: spin_assignments_def set_n_lists)

lemma spin_term:
  assumes "a = 1 \<or> a = - 1" and "b = 1 \<or> b = - 1"
  shows "x * real_of_int a * real_of_int b = x - 2 * (if a \<noteq> b then x else 0)"
  using assms by auto

lemma energy_cut:
  assumes "length sigma = n_instances" and "set sigma \<subseteq> {1, - 1}"
  shows "energy (ising_model w) sigma = total_weight w - 2 * cut_weight w sigma"
proof -
  obtain a b c d where s: "sigma = [a, b, c, d]"
    using assms(1) by (auto simp: n_instances_def numeral_eq_Suc length_Suc_conv)
  have v: "a = 1 \<or> a = - 1" "b = 1 \<or> b = - 1" "c = 1 \<or> c = - 1" "d = 1 \<or> d = - 1"
    using assms(2) by (auto simp: s)
  show ?thesis
    unfolding energy_ising total_weight_def cut_weight_def upper_pairs_eq s
    by (simp add: spin_term [OF v(1) v(2)] spin_term [OF v(1) v(3)] spin_term [OF v(1) v(4)]
        spin_term [OF v(2) v(3)] spin_term [OF v(2) v(4)] spin_term [OF v(3) v(4)])
qed

lemma min_energy_iff_max_cut:
  assumes "length sigma = n_instances" and "set sigma \<subseteq> {1, - 1}"
  shows "min_energy w sigma \<longleftrightarrow> max_cut w sigma"
proof -
  have "energy (ising_model w) sigma \<le> energy (ising_model w) tau \<longleftrightarrow>
        cut_weight w tau \<le> cut_weight w sigma"
    if "tau \<in> set spin_assignments" for tau
  proof -
    from that have "length tau = n_instances" "set tau \<subseteq> {1, - 1}"
      by (simp_all add: set_spin_assignments)
    then show ?thesis
      using energy_cut [OF assms, of w] energy_cut [of tau w] by simp
  qed
  then show ?thesis
    by (simp add: min_energy_def max_cut_def list_all_iff)
qed

section \<open>The Markov network\<close>

lemma mrf_model_eq:
  "mrf_model =
     \<lparr>bqm_linear = [(0, 1), (1, 1), (2, 1), (3, 1)],
      bqm_quadratic = [((0, 1), - 1), ((1, 2), - 1)],
      bqm_offset = 0, bqm_vartype = BINARY\<rparr>"
  by (simp add: mrf_model_def mrf_h_def mrf_J_def n_variables_def BinaryQuadraticModel_def
      upt_rec eval_nat_numeral)

lemma binary_assignments_eq:
  "binary_assignments =
     [[0, 0, 0, 0], [1, 0, 0, 0], [0, 1, 0, 0], [1, 1, 0, 0],
      [0, 0, 1, 0], [1, 0, 1, 0], [0, 1, 1, 0], [1, 1, 1, 0],
      [0, 0, 0, 1], [1, 0, 0, 1], [0, 1, 0, 1], [1, 1, 0, 1],
      [0, 0, 1, 1], [1, 0, 1, 1], [0, 1, 1, 1], [1, 1, 1, 1]]"
  by (simp add: binary_assignments_def n_variables_def eval_nat_numeral)

lemma mrf_energy:
  "energy mrf_model [a, b, c, d] =
     real_of_int a + real_of_int b + real_of_int c + real_of_int d
     - real_of_int a * real_of_int b - real_of_int b * real_of_int c"
  by (simp add: mrf_model_eq energy_def)

lemma exp_minus_2: "exp (- 2 :: real) = exp (- 1) * exp (- 1)"
  by (simp flip: exp_add)

lemma exp_minus_3: "exp (- 3 :: real) = exp (- 1) * exp (- 1) * exp (- 1)"
  by (simp flip: exp_add)

lemma mrf_weight:
  "boltzmann_weight mrf_model [a, b, c, d] =
     exp (- (real_of_int a + real_of_int b + real_of_int c + real_of_int d
     - real_of_int a * real_of_int b - real_of_int b * real_of_int c))"
  by (simp add: boltzmann_weight_def mrf_energy)

lemma mrf_partition_function:
  "partition_function mrf_model =
     (1 + 6 * exp (- 1) + exp (- 1) * exp (- 1)) * (1 + exp (- 1))"
  by (simp add: partition_function_def binary_assignments_eq mrf_weight exp_minus_2 exp_minus_3
      algebra_simps)

lemma mrf_partition_function_nonzero: "partition_function mrf_model \<noteq> 0"
proof -
  have "0 < (1 + 6 * exp (- 1) + exp (- 1) * exp (- 1)) * (1 + exp (- 1 :: real))"
    by (intro mult_pos_pos add_pos_pos) simp_all
  then show ?thesis
    unfolding mrf_partition_function by linarith
qed

lemma product_of_fractions:
  fixes z :: real
  assumes "z \<noteq> 0" and "n * z = a * b"
  shows "n / z = a / z * (b / z)"
  using assms by (simp add: field_simps)

lemma equal_products_of_fractions:
  fixes z :: real
  assumes "a * b = c * d"
  shows "a / z * (b / z) = c / z * (d / z)"
  using assms by simp

lemma mrf_x4_independent: "x4_independent mrf_model"
  unfolding x4_independent_def binary_assignments_eq list.pred_inject probability_def
  by (intro conjI product_of_fractions [OF mrf_partition_function_nonzero] TrueI;
      simp add: mrf_partition_function mrf_weight exp_minus_2 exp_minus_3 algebra_simps)

lemma mrf_x1_x3_independent: "x1_x3_independent_given_x2 mrf_model"
  unfolding x1_x3_independent_given_x2_def binary_assignments_eq list.pred_inject probability_def
  by (intro conjI equal_products_of_fractions TrueI;
      simp add: mrf_weight exp_minus_2 exp_minus_3 algebra_simps)

lemma cancel_fraction:
  fixes z :: real
  assumes "0 < z" and "n / z = m / (z * z)"
  shows "n * z = m"
proof -
  have z: "z \<noteq> 0"
    using assms(1) by simp
  have "n * z = (n / z) * (z * z)"
    using z by simp
  also have "\<dots> = (m / (z * z)) * (z * z)"
    by (simp only: assms(2))
  also have "\<dots> = m"
    using z by simp
  finally show ?thesis .
qed

text \<open>
  The two properties depend on the couplings: a model that couples variable 3 to variable
  2 does not make \<open>X4\<close> independent of the other variables.
\<close>

lemma coupled_x4_not_independent:
  "\<not> x4_independent
       (BinaryQuadraticModel [(0, 0), (1, 0), (2, 0), (3, 0)] [((2, 3), - 1)] 0 BINARY)"
proof
  define m where
    "m = BinaryQuadraticModel [(0, 0), (1, 0), (2, 0), (3, 0)] [((2, 3), - 1)] 0 BINARY"
  have w: "boltzmann_weight m [a, b, c, d] = exp (real_of_int c * real_of_int d)" for a b c d
    by (simp add: m_def boltzmann_weight_def BinaryQuadraticModel_def energy_def)
  assume "x4_independent
    (BinaryQuadraticModel [(0, 0), (1, 0), (2, 0), (3, 0)] [((2, 3), - 1)] 0 BINARY)"
  then have "x4_independent m"
    by (simp add: m_def)
  then have "probability m (\<lambda>y. y = [0, 0, 1, 1]) =
      probability m (\<lambda>y. take 3 y = take 3 [0, 0, 1, 1])
      * probability m (\<lambda>y. y ! 3 = [0, 0, 1, 1] ! 3)"
    by (simp add: x4_independent_def binary_assignments_eq)
  then have "exp 1 / (12 + 4 * exp 1) =
      (1 + exp 1) * (4 + 4 * exp 1) / ((12 + 4 * exp 1) * (12 + 4 * exp (1::real)))"
    by (simp add: probability_def partition_function_def binary_assignments_eq w)
  moreover have "0 < 12 + 4 * exp (1::real)"
    by (intro add_pos_pos mult_pos_pos) simp_all
  ultimately have "exp 1 * (12 + 4 * exp 1) = (1 + exp 1) * (4 + 4 * exp (1::real))"
    by (rule cancel_fraction [rotated])
  then have "exp (1::real) = 1"
    by (simp add: algebra_simps)
  then show False
    by simp
qed

section \<open>The Bell pair\<close>

text \<open>
  C8: the Bell circuit (H on qubit 0, then CNOT with control 0 and target 1) takes the
  state \<open>|00>\<close> to \<open>(|00> + |11>) / sqrt 2\<close>: the amplitudes of \<open>|00>\<close> and \<open>|11>\<close> are
  \<open>1 / sqrt 2\<close>, those of \<open>|01>\<close> and \<open>|10>\<close> are zero, so the outcomes 01 and 10 have
  probability zero and the only outcomes a measurement can report are 00 and 11, each with
  probability one half.
\<close>

theorem bell_state_outcomes:
  "get_statevector bell_circuit =
     [complex_of_real (1 / sqrt 2), 0, 0, complex_of_real (1 / sqrt 2)]
   \<and> probabilities (get_statevector bell_circuit) = [1 / 2, 0, 0, 1 / 2]
   \<and> possible_outcomes bell_circuit = [''00'', ''11'']"
proof -
  have p: "probabilities (get_statevector bell_circuit) = [1 / 2, 0, 0, 1 / 2]"
    by (simp add: bell_statevector probabilities_def cmod_inv_sqrt2_sq)
  have o: "possible_outcomes bell_circuit = [''00'', ''11'']"
    unfolding possible_outcomes_def p bell_n_qubits
    by (simp add: upt_4 bitstring_def bit_set_def upt_rec)
  show ?thesis
    using p o by (simp add: bell_statevector inv_sqrt2_def)
qed

section \<open>The matrix-inversion circuit\<close>

text \<open>
  C2, as the code has it: each grading cell of the matrix-inversion notebook compares the
  amplitudes of the circuit with a hardcoded vector by \<open>np.allclose\<close>, and each comparison
  holds. The vector asserted after the state preparation of Exercise 1 (H on qubit 1, H on
  qubit 2, X on qubit 3, from the all-zero state of the 4-qubit register) has 16 entries,
  one per basis state. Its first eight entries are 0 and its last eight are
  \<open>[0.5, 0, 0.5, 0, 0.5, 0, 0.5, 0]\<close>; the prepared state is exactly this vector.
\<close>

theorem exercise1_amplitudes:
  "n_qubits hhl_after_exercise1 = 4
   \<and> instructions hhl_after_exercise1 = [HGate 1, HGate 2, XGate 3]
   \<and> length exercise1_expected = 16
   \<and> take 8 exercise1_expected = [0, 0, 0, 0, 0, 0, 0, 0]
   \<and> drop 8 exercise1_expected = [0.5, 0, 0.5, 0, 0.5, 0, 0.5, 0]
   \<and> get_amplitudes hhl_after_exercise1 = exercise1_expected
   \<and> allclose (get_amplitudes hhl_after_exercise1) exercise1_expected
   \<and> allclose (get_amplitudes hhl_after_exercise2) exercise2_expected
   \<and> allclose (get_amplitudes hhl_after_exercise3) exercise3_expected
   \<and> allclose (get_amplitudes hhl_after_exercise4) exercise4_expected
   \<and> allclose (get_amplitudes hhl_after_exercise5) exercise5_expected"
proof -
  have half: "Complex (5 / 10) 0 = 1 / 2" and zero: "Complex 0 0 = 0"
    by (simp_all add: complex_eq_iff)
  have e: "exercise1_expected = [0, 0, 0, 0, 0, 0, 0, 0, 1 / 2, 0, 1 / 2, 0, 1 / 2, 0, 1 / 2, 0]"
    unfolding exercise1_expected_def half zero by (rule refl)
  have a: "get_amplitudes hhl_after_exercise1 = exercise1_expected"
    unfolding e get_amplitudes_def by (rule statevector_after_1)
  have v: "n_qubits hhl_after_exercise1 = 4
      \<and> instructions hhl_after_exercise1 = [HGate 1, HGate 2, XGate 3]
      \<and> length exercise1_expected = 16
      \<and> take 8 exercise1_expected = [0, 0, 0, 0, 0, 0, 0, 0]
      \<and> drop 8 exercise1_expected = [0.5, 0, 0.5, 0, 0.5, 0, 0.5, 0]"
    by (simp add: hhl_after_exercise1_def exercise1_instructions e)
  show ?thesis
    using v a grade_1 grade_2 grade_3 grade_4 grade_5 by (intro conjI) simp_all
qed

text \<open>
  C2 as the spec states it fails on the code: the vector asserted after Exercise 1 does
  not have 4 elements, and it does not begin with \<open>[0.5, 0, 0.5, 0, 0.5, 0, 0.5, 0]\<close>.
  Nor is every grading assertion a comparison to floating-point tolerance: the grading cell
  of the Markov-random-field exercise compares the biases exactly, so it rejects a model
  whose first linear bias is \<open>1 + 10^-9\<close>, a value that \<open>np.allclose\<close> accepts as 1.
\<close>

theorem exercise1_vector_counterexample:
  "length exercise1_expected \<noteq> 4
   \<and> length (get_amplitudes hhl_after_exercise1) \<noteq> 4
   \<and> take 8 exercise1_expected \<noteq> [0.5, 0, 0.5, 0, 0.5, 0, 0.5, 0]
   \<and> isclose (complex_of_real (1 + 1 / 1000000000)) (Complex 1 0)
   \<and> \<not> mrf_grading
         (BinaryQuadraticModel [(0, 1 + 1 / 1000000000), (1, 1), (2, 1), (3, 1)] mrf_J 0 BINARY)"
proof -
  have "length exercise1_expected = 16"
    by (simp add: exercise1_expected_def)
  moreover have "length (get_amplitudes hhl_after_exercise1) = 16"
    by (simp add: get_amplitudes_def statevector_after_1)
  moreover have "take 8 exercise1_expected = [0, 0, 0, 0, 0, 0, 0, 0]"
    by (simp add: exercise1_expected_def complex_eq_iff)
  moreover have "isclose (complex_of_real (1 + 1 / 1000000000)) (Complex 1 0)"
    unfolding isclose_real by (simp add: atol_def rtol_def)
  moreover have "\<not> mrf_grading
      (BinaryQuadraticModel [(0, 1 + 1 / 1000000000), (1, 1), (2, 1), (3, 1)] mrf_J 0 BINARY)"
    by (simp add: mrf_grading_def BinaryQuadraticModel_def)
  ultimately show ?thesis
    by simp
qed

text \<open>
  C3: running the cells of the notebook top to bottom, from Exercise 1 to the grading cell
  of Exercise 5, raises nothing (every grading assertion holds) and leaves \<open>hhl\<close> bound to
  the 4-qubit circuit whose instructions are the gates of Exercises 1, 2, 3, 4 and 5 in
  that order. Its statevector from the all-zero state has \<open>cos (0.19634955 / 2)\<close> at
  index 8, \<open>sin (0.19634955 / 2)\<close> at index 9 and 0 at every other index; these two
  amplitudes are within the tolerance of \<open>np.allclose\<close> of 0.99518473 and 0.09801714, so
  the vector passes the comparison of the Exercise 5 grading cell.
\<close>

theorem notebook_run_to_exercise5:
  "run_cells matrix_inversion_notebook fresh_namespace =
     Inr \<lparr>ns_hhl = Some hhl_after_exercise5,
          ns_amplitudes = Some (get_amplitudes hhl_after_exercise5)\<rparr>
   \<and> hhl_after_exercise5 =
       \<lparr>n_qubits = 4, n_clbits = 4,
        instructions =
          [HGate 1, HGate 2, XGate 3]
               @ [CzGate 2 3]
               @ [SwapGate 1 2, HGate 2, Cu1Gate (- pi / 2) 1 2, HGate 1]
               @ [SwapGate 1 2, Cu3Gate 0.392699 0 0 1 0, Cu3Gate 0.19634955 0 0 2 0]
               @ [SwapGate 1 2, HGate 1, Cu1Gate (pi / 2) 1 2, HGate 2,
                  SwapGate 1 2, CzGate 2 3, HGate 1, HGate 2]\<rparr>
   \<and> get_amplitudes hhl_after_exercise5 = get_statevector hhl_after_exercise5
   \<and> get_statevector hhl_after_exercise5 =
       [0, 0, 0, 0, 0, 0, 0, 0,
        complex_of_real (cos (0.19634955 / 2)), complex_of_real (sin (0.19634955 / 2)),
        0, 0, 0, 0, 0, 0]
   \<and> \<bar>cos (0.19634955 / 2) - 0.99518473\<bar> \<le> atol + rtol * \<bar>0.99518473\<bar>
   \<and> \<bar>sin (0.19634955 / 2) - 0.09801714\<bar> \<le> atol + rtol * \<bar>0.09801714\<bar>
   \<and> allclose (get_statevector hhl_after_exercise5) exercise5_expected"
proof -
  have c: "\<bar>cos (0.19634955 / 2) - 0.99518473\<bar> \<le> atol + rtol * \<bar>0.99518473\<bar>"
    using cos_close by (simp add: atol_def rtol_def)
  have d: "\<bar>sin (0.19634955 / 2) - 0.09801714\<bar> \<le> atol + rtol * \<bar>0.09801714\<bar>"
    using sin_close by (simp add: atol_def rtol_def)
  have g: "allclose (get_statevector hhl_after_exercise5) exercise5_expected"
    using grade_5 by (simp only: get_amplitudes_def)
  show ?thesis
    using notebook_run hhl_after_exercise5_eq get_amplitudes_def [of hhl_after_exercise5]
      statevector_after_5 c d g
    by (intro conjI)
qed

text \<open>
  C4: the circuit that realises phase estimation and the controlled rotation (the gates
  of Exercises 1 to 4) is one fixed circuit on a register of exactly 4 qubits, made of 11
  gate calls, each on qubits of that register; with the 8 uncompute gates of Exercise 5
  the whole circuit has 19 gate calls on the same 4 qubits.
\<close>

theorem hhl_circuit_size:
  "n_qubits hhl_after_exercise4 = 4
   \<and> length (instructions hhl_after_exercise4) = 11
   \<and> list_all (\<lambda>g. list_all (\<lambda>q. q < 4) (gate_qubits g)) (instructions hhl_after_exercise4)
   \<and> n_qubits hhl_after_exercise5 = 4
   \<and> length (instructions hhl_after_exercise5) = 19
   \<and> list_all (\<lambda>g. list_all (\<lambda>q. q < 4) (gate_qubits g)) (instructions hhl_after_exercise5)"
  by (simp add: hhl_after_exercise4_eq hhl_after_exercise5_eq gate_qubits_def)

text \<open>
  C9: the uncompute gates of Exercise 5 take any state with amplitudes \<open>a\<close> and \<open>b\<close> at
  indices 12 and 13 and 0 elsewhere (qubit 3 and qubit 2 set, the ancilla qubit 0
  carrying \<open>a\<close> and \<open>b\<close>) to the state with the same \<open>a\<close> and \<open>b\<close> at indices 8 and 9 and 0
  elsewhere: qubits 1 and 2 are back in \<open>|0>\<close>, the ancilla and input qubits keep their
  amplitudes. The state after Exercise 4 is of this form, with
  \<open>a = cos (0.19634955 / 2)\<close> and \<open>b = sin (0.19634955 / 2)\<close>, the values the grading cells
  of Exercises 4 and 5 accept as 0.99518473 and 0.09801714.
\<close>

theorem uncompute_frame:
  "run_circuit (exercise5_solution (QuantumCircuit 4 4))
     [0, 0, 0, 0, 0, 0, 0, 0, 0, 0, 0, 0, a, b, 0, 0] =
     [0, 0, 0, 0, 0, 0, 0, 0, a, b, 0, 0, 0, 0, 0, 0]
   \<and> get_statevector hhl_after_exercise4 =
       [0, 0, 0, 0, 0, 0, 0, 0, 0, 0, 0, 0,
        complex_of_real (cos (0.19634955 / 2)), complex_of_real (sin (0.19634955 / 2)), 0, 0]
   \<and> get_statevector hhl_after_exercise5 =
       run_circuit (exercise5_solution (QuantumCircuit 4 4))
         (get_statevector hhl_after_exercise4)
   \<and> get_statevector hhl_after_exercise5 =
       [0, 0, 0, 0, 0, 0, 0, 0,
        complex_of_real (cos (0.19634955 / 2)), complex_of_real (sin (0.19634955 / 2)),
        0, 0, 0, 0, 0, 0]
   \<and> allclose (get_statevector hhl_after_exercise4) exercise4_expected
   \<and> allclose (get_statevector hhl_after_exercise5) exercise5_expected"
proof -
  have u: "run_circuit (exercise5_solution (QuantumCircuit 4 4)) psi =
      fold apply_gate
        [SwapGate 1 2, HGate 1, Cu1Gate (pi / 2) 1 2, HGate 2,
         SwapGate 1 2, CzGate 2 3, HGate 1, HGate 2] psi" for psi
    by (simp add: exercise5_instructions run_circuit_def QuantumCircuit_def)
  have f: "run_circuit (exercise5_solution (QuantumCircuit 4 4))
      [0, 0, 0, 0, 0, 0, 0, 0, 0, 0, 0, 0, a, b, 0, 0] =
      [0, 0, 0, 0, 0, 0, 0, 0, a, b, 0, 0, 0, 0, 0, 0]"
    unfolding u by (rule state_ex5)
  have c: "get_statevector hhl_after_exercise5 =
      run_circuit (exercise5_solution (QuantumCircuit 4 4))
        (get_statevector hhl_after_exercise4)"
    unfolding u hhl_after_exercise5_def
    by (simp only: exercise5_instructions [of hhl_after_exercise4] get_statevector_append)
  show ?thesis
    using f c statevector_after_4 statevector_after_5 grade_4 grade_5
    unfolding get_amplitudes_def by (intro conjI)
qed

text \<open>
  C5: for every dataset (any two arrays \<open>class_1\<close> and \<open>class_2\<close> of \<open>n_instances // 2\<close>
  points each) and all indices \<open>i\<close>, \<open>j\<close> in \<open>range(n_instances)\<close>, the matrix the loop
  builds has \<open>w[i, j]\<close> equal to the Euclidean norm of \<open>data[i] - data[j]\<close>; hence
  \<open>w[i, j] = w[j, i]\<close> and \<open>w[i, i] = 0\<close>.
\<close>

theorem distance_matrix:
  assumes "length class_1 = n_instances div 2" and "length class_2 = n_instances div 2"
    and "i < n_instances" and "j < n_instances"
  shows "pairwise_distances (concatenate class_1 class_2) ! i ! j =
           linalg_norm (vec_sub (concatenate class_1 class_2 ! i) (concatenate class_1 class_2 ! j))
         \<and> pairwise_distances (concatenate class_1 class_2) ! i ! j =
           pairwise_distances (concatenate class_1 class_2) ! j ! i
         \<and> pairwise_distances (concatenate class_1 class_2) ! i ! i = 0"
  using assms(3,4) by (simp add: pairwise_distances_nth linalg_norm_commute linalg_norm_self)

theorem distance_matrix_witness:
  "length [[0, 0, 0], [3, 4, 0 :: real]] = n_instances div 2
   \<and> length [[1, 0, 0], [0, 0, 1 :: real]] = n_instances div 2
   \<and> 0 < n_instances \<and> 1 < n_instances
   \<and> pairwise_distances
       (concatenate [[0, 0, 0], [3, 4, 0]] [[1, 0, 0], [0, 0, 1]]) ! 0 ! 1 = 5
   \<and> pairwise_distances
       (concatenate [[0, 0, 0], [3, 4, 0]] [[1, 0, 0], [0, 0, 1]]) ! 1 ! 0 = 5
   \<and> pairwise_distances
       (concatenate [[0, 0, 0], [3, 4, 0]] [[1, 0, 0], [0, 0, 1]]) ! 0 ! 0 = 0"
proof -
  have five: "linalg_norm (vec_sub [0, 0, 0] [3, 4, 0]) = 5"
  proof -
    have "sqrt 25 = (5::real)"
      by (rule real_sqrt_unique) simp_all
    then show ?thesis
      by (simp add: linalg_norm_def vec_sub_def)
  qed
  have h: "length [[0, 0, 0], [3, 4, 0 :: real]] = n_instances div 2"
    "length [[1, 0, 0], [0, 0, 1 :: real]] = n_instances div 2"
    "0 < n_instances" "1 < n_instances"
    by (simp_all add: n_instances_def)
  show ?thesis
    using distance_matrix [OF h] h five by (simp add: concatenate_def)
qed

text \<open>
  C1: the model handed to the annealer has on-site field \<open>h[i] = 0\<close> for every variable
  and coupling \<open>J[(i, j)] = w[i, j]\<close> for every pair \<open>i < j\<close> of the 4 instances. For every
  spin assignment \<open>sigma\<close> in \<open>{-1, +1}^4\<close> its energy is the sum over \<open>i < j\<close> of
  \<open>w[i, j] * sigma_i * sigma_j\<close>, which is the total edge weight minus twice the weight of
  the cut that \<open>sigma\<close> induces; hence \<open>sigma\<close> has minimum energy among the spin assignments
  exactly when its cut has maximum weight among them.
\<close>

theorem ising_energy_max_cut:
  assumes "length sigma = n_instances" and "set sigma \<subseteq> {1, - 1}"
  shows "bqm_linear (ising_model w) = [(0, 0), (1, 0), (2, 0), (3, 0)]
         \<and> bqm_quadratic (ising_model w) = map (\<lambda>(i, j). ((i, j), w ! i ! j)) upper_pairs
         \<and> upper_pairs = [(0, 1), (0, 2), (0, 3), (1, 2), (1, 3), (2, 3)]
         \<and> energy (ising_model w) sigma =
             (\<Sum>(i, j)\<leftarrow>upper_pairs. w ! i ! j * real_of_int (sigma ! i) * real_of_int (sigma ! j))
         \<and> energy (ising_model w) sigma = total_weight w - 2 * cut_weight w sigma
         \<and> set spin_assignments = {tau. length tau = n_instances \<and> set tau \<subseteq> {1, - 1}}
         \<and> (min_energy w sigma \<longleftrightarrow> max_cut w sigma)"
  using energy_cut [OF assms] min_energy_iff_max_cut [OF assms] energy_ising [of w sigma]
    set_spin_assignments upper_pairs_eq
  by (simp add: ising_model_eq)

theorem ising_energy_max_cut_witness:
  "length [1, 1, - 1, - 1 :: int] = n_instances
   \<and> set [1, 1, - 1, - 1 :: int] \<subseteq> {1, - 1}
   \<and> energy (ising_model [[0, 1, 5, 5], [1, 0, 5, 5], [5, 5, 0, 1], [5, 5, 1, 0]])
        [1, 1, - 1, - 1] = - 18
   \<and> total_weight [[0, 1, 5, 5], [1, 0, 5, 5], [5, 5, 0, 1], [5, 5, 1, 0]] = 22
   \<and> cut_weight [[0, 1, 5, 5], [1, 0, 5, 5], [5, 5, 0, 1], [5, 5, 1, 0]] [1, 1, - 1, - 1] = 20
   \<and> (min_energy [[0, 1, 5, 5], [1, 0, 5, 5], [5, 5, 0, 1], [5, 5, 1, 0]] [1, 1, - 1, - 1]
        \<longleftrightarrow> max_cut [[0, 1, 5, 5], [1, 0, 5, 5], [5, 5, 0, 1], [5, 5, 1, 0]] [1, 1, - 1, - 1])"
proof -
  have h: "length [1, 1, - 1, - 1 :: int] = n_instances" "set [1, 1, - 1, - 1 :: int] \<subseteq> {1, - 1}"
    by (simp_all add: n_instances_def)
  have t: "total_weight [[0, 1, 5, 5], [1, 0, 5, 5], [5, 5, 0, 1], [5, 5, 1, 0]] = 22"
    by (simp add: total_weight_def upper_pairs_eq)
  have c: "cut_weight [[0, 1, 5, 5], [1, 0, 5, 5], [5, 5, 0, 1], [5, 5, 1, 0]] [1, 1, - 1, - 1] = 20"
    by (simp add: cut_weight_def upper_pairs_eq)
  show ?thesis
    using ising_energy_max_cut [OF h, of "[[0, 1, 5, 5], [1, 0, 5, 5], [5, 5, 0, 1], [5, 5, 1, 0]]"]
      h t c
    by simp
qed

text \<open>
  C10: the model of the Markov-random-field exercise has vartype BINARY and exactly the
  4 variables 0, 1, 2, 3, each with linear bias 1; its quadratic biases are \<open>-1\<close> on
  exactly the pairs \<open>(0, 1)\<close> and \<open>(1, 2)\<close>, so the assertions of the grading cell hold.
  Variable 3 occurs in no coupling and there is no coupling between variables 0 and 2.
  In the distribution \<open>exp (- E) / Z\<close> of the model, \<open>X4\<close> is independent of the other
  variables and \<open>X1\<close> and \<open>X3\<close> are conditionally independent given \<open>X2\<close>.
\<close>

theorem markov_network_model:
  "bqm_vartype mrf_model = BINARY
   \<and> map fst (bqm_linear mrf_model) = [0, 1, 2, 3]
   \<and> map snd (bqm_linear mrf_model) = [1, 1, 1, 1]
   \<and> bqm_quadratic mrf_model = [((0, 1), - 1), ((1, 2), - 1)]
   \<and> mrf_grading mrf_model
   \<and> list_all (\<lambda>((u, v), bias). u \<noteq> 3 \<and> v \<noteq> 3) (bqm_quadratic mrf_model)
   \<and> map_of (bqm_quadratic mrf_model) (0, 2) = None
   \<and> map_of (bqm_quadratic mrf_model) (2, 0) = None
   \<and> x4_independent mrf_model
   \<and> x1_x3_independent_given_x2 mrf_model"
  using mrf_x4_independent mrf_x1_x3_independent
  by (simp add: mrf_model_eq mrf_grading_def)

section \<open>Exceptions reach the runner\<close>



text \<open>
  An exception of the library, or of an argument, is the result of the call; nothing in an
  expression or a statement turns \<open>Inl\<close> into \<open>Inr\<close>.
\<close>

lemma call_raises:
  assumes "eval_args args ns = Inr vs" and "lib name vs = Inl e"
  shows "call lib name args ns = Inl e"
  using assms by (simp add: call_def then_do_def)

lemma argument_raises:
  assumes "eval_args args ns = Inl e"
  shows "call lib name args ns = Inl e"
  using assms by (simp add: call_def then_do_def)



section \<open>The sizes of the fixed inputs\<close>





end
